theory Spec2Isabelle
  imports Complex_Main
begin

section \<open>Safety Gym suite: data model\<close>

text \<open>
  The module \<^verbatim>\<open>alf/environments/suite_safety_gym.py\<close> wraps a Safety Gym simulator
  environment. The simulator itself, the gym registry and \<^verbatim>\<open>suite_gym.wrap_env\<close> are
  collaborators: they enter the model as parameters (a step function over the
  simulator's state, \<^verbatim>\<open>gym.make\<close>, \<^verbatim>\<open>num_steps\<close>, \<^verbatim>\<open>wrap_env\<close>).

  A finite Python \<^verbatim>\<open>float\<close> is the real number it denotes (infinities and NaN are left
  out). The conversion of such a number to \<^verbatim>\<open>np.float32\<close> is modelled as IEEE 754 does it:
  rounding to the nearest binary32 value, ties to even, overflow to infinity. The values of
  an info dict are the booleans and floats the simulator reports.
\<close>

datatype pyvalue = Bool bool | Float real

type_synonym info = "string \<rightharpoonup> pyvalue"

text \<open>
  An exception is a value: \<open>KeyError k\<close> is the failed lookup of key \<open>k\<close> in a dict,
  \<open>Raised x\<close> is whatever a collaborator raised.
\<close>

datatype 'x exn = KeyError string | Raised 'x

text \<open>
  \<^verbatim>\<open>env.step(action)\<close> of an environment with state \<open>'e\<close>: it raises, or it returns
  the tuple \<^verbatim>\<open>(obs, reward, done, info)\<close> and leaves the environment in a new state.
\<close>

type_synonym ('e, 'a, 'o, 'r, 'x) step_fn =
  "'e \<Rightarrow> 'a \<Rightarrow> 'x exn + (('o \<times> 'r \<times> bool \<times> info) \<times> 'e)"

text \<open>
  A value of \<^verbatim>\<open>np.float32\<close>: a finite binary32 number or an infinity. An array of dtype
  \<^verbatim>\<open>float32\<close> is the list of its elements.
\<close>

datatype float32 = Fin32 real | PosInf32 | NegInf32

type_synonym ndarray = "float32 list"

text \<open>
  Rounding to binary32. The quantum of \<open>x\<close> is \<open>2 powi q\<close> for the greatest \<open>q\<close> from
  -148 to 104 with \<open>2 powi (q + 23) \<le> \<bar>x\<bar>\<close> (24 significant bits), and \<open>2 powi (- 149)\<close>
  below the normal range; \<open>x\<close> is rounded to the nearest multiple of its quantum, a tie
  going to the even multiple, and a result of magnitude \<open>2 ^ 128\<close> is an infinity.
\<close>

definition round_half_even :: "real \<Rightarrow> int" where
  "round_half_even y =
     (let f = \<lfloor>y\<rfloor>; d = y - of_int f
      in if d < 1 / 2 then f
         else if 1 / 2 < d then f + 1
         else if even f then f else f + 1)"

fun float32_quantum_scan :: "nat \<Rightarrow> int \<Rightarrow> real \<Rightarrow> int" where
  "float32_quantum_scan 0 q a = q"
| "float32_quantum_scan (Suc n) q a =
     (if 2 powi (q + 23) \<le> a then q else float32_quantum_scan n (q - 1) a)"

definition float32_quantum :: "real \<Rightarrow> int" where
  "float32_quantum a = float32_quantum_scan 253 104 a"

definition np_float32 :: "real \<Rightarrow> float32" where
  "np_float32 x =
     (let q = float32_quantum \<bar>x\<bar>;
          y = of_int (round_half_even (x / 2 powi q)) * 2 powi q
      in if 2 ^ 128 \<le> y then PosInf32
         else if y \<le> - (2 ^ 128) then NegInf32
         else Fin32 y)"

text \<open>The numbers binary32 represents exactly: 24-bit significand, exponent range of binary32.\<close>

definition is_binary32 :: "real \<Rightarrow> bool" where
  "is_binary32 x \<longleftrightarrow>
     (\<exists>m e. \<bar>m\<bar> < 2 ^ 24 \<and> - 149 \<le> e \<and> e \<le> 104 \<and> x = of_int m * 2 powi e)"


text \<open>\<^verbatim>\<open>-x\<close> and \<^verbatim>\<open>float(x)\<close> on the values of an info dict (\<^verbatim>\<open>True\<close> counts as 1).\<close>

fun py_float :: "pyvalue \<Rightarrow> real" where
  "py_float (Bool b) = (if b then 1 else 0)"
| "py_float (Float x) = x"

definition py_neg :: "pyvalue \<Rightarrow> real" where
  "py_neg v = - py_float v"

section \<open>Module imports and \<^verbatim>\<open>is_available\<close>\<close>

text \<open>
  \<^verbatim>\<open>
  try:
      import mujoco_py
      import safety_gym
  except ImportError:
      mujoco_py = None
      safety_gym = None
  \<close>
  An import either binds the module or raises \<^verbatim>\<open>ImportError\<close>; the second import is
  only attempted after the first succeeded. The module globals are the pair
  \<open>(mujoco_py, safety_gym)\<close>.
\<close>

datatype pymodule = Module string

definition import_module :: "bool \<Rightarrow> string \<Rightarrow> pymodule option" where
  "import_module importable name = (if importable then Some (Module name) else None)"

definition module_imports :: "bool \<Rightarrow> bool \<Rightarrow> pymodule option \<times> pymodule option" where
  "module_imports mujoco_importable safety_gym_importable =
     (case import_module mujoco_importable ''mujoco_py'' of
        None \<Rightarrow> (None, None)
      | Some m \<Rightarrow>
          (case import_module safety_gym_importable ''safety_gym'' of
             None \<Rightarrow> (None, None)
           | Some s \<Rightarrow> (Some m, Some s)))"

definition is_available :: "pymodule option \<times> pymodule option \<Rightarrow> bool" where
  "is_available globals = (fst globals \<noteq> None \<and> snd globals \<noteq> None)"

section \<open>\<^verbatim>\<open>CompleteEnvInfo\<close>\<close>

text \<open>Python's \<^verbatim>\<open>sub in s\<close> on strings: \<open>sub\<close> occurs in \<open>s\<close> as a contiguous run.\<close>

fun startswith :: "string \<Rightarrow> string \<Rightarrow> bool" where
  "startswith s [] = True"
| "startswith [] (p # ps) = False"
| "startswith (c # cs) (p # ps) = (c = p \<and> startswith cs ps)"

fun str_contains :: "string \<Rightarrow> string \<Rightarrow> bool" where
  "str_contains sub [] = (sub = [])"
| "str_contains sub (c # cs) = (startswith (c # cs) sub \<or> str_contains sub cs)"

record 'e CompleteEnvInfo =
  cei_env :: 'e
  env_info_keys :: "string list"
  default_env_info :: info

definition is_level0_env :: "string \<Rightarrow> bool" where
  "is_level0_env env_name = str_contains ''0-v'' env_name"

text \<open>The loop of \<^verbatim>\<open>_generate_default_env_info\<close>, one assignment per key.\<close>

definition generate_default_env_info :: "string list \<Rightarrow> info" where
  "generate_default_env_info keys =
     fold (\<lambda>key env_info.
             if key = ''goal_met'' then env_info(key \<mapsto> Bool False)
             else env_info(key \<mapsto> Float 0))
          keys Map.empty"

definition base_env_info_keys :: "string list" where
  "base_env_info_keys = [''cost_exception'', ''goal_met'', ''cost'']"

definition constraint_env_info_keys :: "string list" where
  "constraint_env_info_keys =
     [''cost_vases_contact'', ''cost_pillars'', ''cost_buttons'',
      ''cost_gremlins'', ''cost_vases_displace'', ''cost_vases_velocity'',
      ''cost_hazards'']"

definition CompleteEnvInfo_init :: "'e \<Rightarrow> string \<Rightarrow> 'e CompleteEnvInfo" where
  "CompleteEnvInfo_init env env_name =
     (let keys = base_env_info_keys;
          keys = (if \<not> is_level0_env env_name then keys @ constraint_env_info_keys
                  else keys)
      in \<lparr>cei_env = env, env_info_keys = keys,
          default_env_info = generate_default_env_info keys\<rparr>)"

text \<open>
  \<^verbatim>\<open>
  def step(self, action):
      env_info = copy.copy(self._default_env_info)
      obs, reward, done, info = self.env.step(action)
      env_info.update(info)
      return obs, reward, done, env_info
  \<close>
  \<open>inner\<close> is the step of the wrapped environment. The copy is what keeps
  \<open>default_env_info\<close> of the wrapper as it was; \<^verbatim>\<open>update\<close> is \<open>++\<close>.
\<close>

definition CompleteEnvInfo_step ::
  "('e, 'a, 'o, 'r, 'x) step_fn \<Rightarrow> ('e CompleteEnvInfo, 'a, 'o, 'r, 'x) step_fn" where
  "CompleteEnvInfo_step inner self action =
     (let env_info = default_env_info self
      in case inner (cei_env self) action of
           Inl e \<Rightarrow> Inl e
         | Inr ((obs, reward, done, info), env') \<Rightarrow>
             Inr ((obs, reward, done, env_info ++ info), self\<lparr>cei_env := env'\<rparr>))"

section \<open>\<^verbatim>\<open>VectorReward\<close>\<close>

datatype bound = MinusInf | Finite real | PlusInf

record box =
  low :: bound
  high :: bound
  shape :: "nat list"

record 'e VectorReward =
  vr_env :: 'e
  vr_reward_space :: box

definition REWARD_DIMENSION :: nat where
  "REWARD_DIMENSION = 3"

definition VectorReward_init :: "'e \<Rightarrow> 'e VectorReward" where
  "VectorReward_init env =
     \<lparr>vr_env = env,
      vr_reward_space = \<lparr>low = MinusInf, high = PlusInf, shape = [REWARD_DIMENSION]\<rparr>\<rparr>"

text \<open>\<^verbatim>\<open>np.array(xs, dtype=np.float32)\<close> on a list of floats: each element is converted.\<close>

definition np_array_float32 :: "real list \<Rightarrow> ndarray" where
  "np_array_float32 xs = map np_float32 xs"

text \<open>
  \<^verbatim>\<open>
  def step(self, action):
      obs, reward, done, info = self.env.step(action)
      cost_reward = -info["cost"]
      success_reward = float(info["goal_met"])
      return obs, np.array([reward, cost_reward, success_reward],
                           dtype=np.float32), done, info
  \<close>
  The two subscriptions raise \<^verbatim>\<open>KeyError\<close> on a missing key, in this order.
\<close>

definition VectorReward_step ::
  "('e, 'a, 'o, real, 'x) step_fn \<Rightarrow> ('e VectorReward, 'a, 'o, ndarray, 'x) step_fn" where
  "VectorReward_step inner self action =
     (case inner (vr_env self) action of
        Inl e \<Rightarrow> Inl e
      | Inr ((obs, reward, done, info), env') \<Rightarrow>
          (case info ''cost'' of
             None \<Rightarrow> Inl (KeyError ''cost'')
           | Some c \<Rightarrow>
               (let cost_reward = py_neg c
                in case info ''goal_met'' of
                     None \<Rightarrow> Inl (KeyError ''goal_met'')
                   | Some g \<Rightarrow>
                       (let success_reward = py_float g
                        in Inr ((obs, np_array_float32 [reward, cost_reward, success_reward],
                                 done, info),
                                self\<lparr>vr_env := env'\<rparr>)))))"

definition reward_space :: "'e VectorReward \<Rightarrow> box" where
  "reward_space self = vr_reward_space self"

section \<open>\<^verbatim>\<open>load\<close>\<close>

text \<open>
  The variable \<^verbatim>\<open>env\<close> of \<^verbatim>\<open>load\<close> holds the simulator environment wrapped by
  \<^verbatim>\<open>CompleteEnvInfo\<close> alone, or by \<^verbatim>\<open>VectorReward\<close> on top of it. Its reward is
  then a scalar or an array.
\<close>

datatype 'e gym_env =
    Plain "'e CompleteEnvInfo"
  | Vectorized "'e CompleteEnvInfo VectorReward"

datatype reward = Scalar real | Vector ndarray

text \<open>\<^verbatim>\<open>env.step(action)\<close>, dispatched on the class of \<^verbatim>\<open>env\<close>.\<close>

definition gym_env_step ::
  "('e, 'a, 'o, real, 'x) step_fn \<Rightarrow> ('e gym_env, 'a, 'o, reward, 'x) step_fn" where
  "gym_env_step base_step env action =
     (case env of
        Plain c \<Rightarrow>
          (case CompleteEnvInfo_step base_step c action of
             Inl e \<Rightarrow> Inl e
           | Inr ((obs, r, done, info), c') \<Rightarrow> Inr ((obs, Scalar r, done, info), Plain c'))
      | Vectorized v \<Rightarrow>
          (case VectorReward_step (CompleteEnvInfo_step base_step) v action of
             Inl e \<Rightarrow> Inl e
           | Inr ((obs, r, done, info), v') \<Rightarrow>
               Inr ((obs, Vector r, done, info), Vectorized v')))"

text \<open>
  An attribute the wrapper classes do not define is looked up, by \<^verbatim>\<open>gym.Wrapper\<close>, in
  the wrapped environment: \<^verbatim>\<open>num_steps\<close> is always the simulator's, and
  \<^verbatim>\<open>reward_space\<close> is the simulator's (if it has one) unless \<^verbatim>\<open>VectorReward\<close> is
  in the chain.
\<close>

definition env_num_steps :: "('e \<Rightarrow> int) \<Rightarrow> 'e gym_env \<Rightarrow> int" where
  "env_num_steps num_steps env =
     (case env of
        Plain c \<Rightarrow> num_steps (cei_env c)
      | Vectorized v \<Rightarrow> num_steps (cei_env (vr_env v)))"

definition env_reward_space :: "('e \<Rightarrow> box option) \<Rightarrow> 'e gym_env \<Rightarrow> box option" where
  "env_reward_space base_reward_space env =
     (case env of
        Plain c \<Rightarrow> base_reward_space (cei_env c)
      | Vectorized v \<Rightarrow> Some (reward_space v))"

text \<open>The keyword arguments of the call \<^verbatim>\<open>suite_gym.wrap_env(env, ...)\<close>.\<close>

record ('e, 'i, 'gw, 'aw) wrap_env_args =
  arg_env :: "'e gym_env"
  arg_env_id :: 'i
  arg_discount :: real
  arg_max_episode_steps :: int
  arg_gym_env_wrappers :: 'gw
  arg_alf_env_wrappers :: 'aw

text \<open>
  \<^verbatim>\<open>
  env = gym.make(environment_name)
  env = CompleteEnvInfo(env, environment_name)
  if not unconstrained:
      env = VectorReward(env)
  if not max_episode_steps:  # None or 0
      max_episode_steps = env.num_steps - 1
  max_episode_steps = min(env.num_steps - 1, max_episode_steps)
  return suite_gym.wrap_env(env, env_id=env_id, discount=discount,
      max_episode_steps=max_episode_steps, gym_env_wrappers=gym_env_wrappers,
      alf_env_wrappers=alf_env_wrappers)
  \<close>
  \<^verbatim>\<open>max_episode_steps\<close> is \<^verbatim>\<open>None\<close> or an integer; \<^verbatim>\<open>not max_episode_steps\<close> holds
  for \<^verbatim>\<open>None\<close> and for 0.
\<close>

definition load ::
  "(string \<Rightarrow> 'x exn + 'e) \<Rightarrow> ('e \<Rightarrow> int) \<Rightarrow>
   (('e, 'i, 'gw, 'aw) wrap_env_args \<Rightarrow> 'x exn + 'alf) \<Rightarrow>
   string \<Rightarrow> 'i \<Rightarrow> real \<Rightarrow> int option \<Rightarrow> bool \<Rightarrow> 'gw \<Rightarrow> 'aw \<Rightarrow> 'x exn + 'alf" where
  "load gym_make num_steps wrap_env environment_name env_id discount max_episode_steps
        unconstrained gym_env_wrappers alf_env_wrappers =
     (case gym_make environment_name of
        Inl e \<Rightarrow> Inl e
      | Inr base \<Rightarrow>
          (let env = CompleteEnvInfo_init base environment_name;
               env = (if \<not> unconstrained then Vectorized (VectorReward_init env)
                      else Plain env);
               max_episode_steps =
                 (case max_episode_steps of
                    None \<Rightarrow> env_num_steps num_steps env - 1
                  | Some l \<Rightarrow> if l = 0 then env_num_steps num_steps env - 1 else l);
               max_episode_steps = min (env_num_steps num_steps env - 1) max_episode_steps
           in wrap_env
                \<lparr>arg_env = env, arg_env_id = env_id, arg_discount = discount,
                 arg_max_episode_steps = max_episode_steps,
                 arg_gym_env_wrappers = gym_env_wrappers,
                 arg_alf_env_wrappers = alf_env_wrappers\<rparr>))"

section \<open>Test doubles\<close>

text \<open>
  A simulator whose every step returns the same tuple and leaves its state alone, and the
  info dict of a step's result (empty when the step raised); both serve the concrete
  runs below.
\<close>

definition stub_step :: "('o \<times> 'r \<times> bool \<times> info) \<Rightarrow> ('e, 'a, 'o, 'r, 'x) step_fn" where
  "stub_step result env action = Inr (result, env)"

definition result_info :: "'x exn + (('o \<times> 'r \<times> bool \<times> info) \<times> 'e) \<Rightarrow> info" where
  "result_info res =
     (case res of Inl e \<Rightarrow> Map.empty | Inr ((obs, reward, done, info), env') \<Rightarrow> info)"

section \<open>Auxiliary facts\<close>

lemma startswith_iff: "startswith s p \<longleftrightarrow> (\<exists>t. s = p @ t)"
  by (induction s p rule: startswith.induct) auto

lemma str_contains_iff: "str_contains sub s \<longleftrightarrow> (\<exists>p t. s = p @ sub @ t)"
proof (induction s)
  case Nil
  show ?case by auto
next
  case (Cons c cs)
  have "(\<exists>p t. c # cs = p @ sub @ t) \<longleftrightarrow>
        (\<exists>t. c # cs = sub @ t) \<or> (\<exists>p t. cs = p @ sub @ t)"
  proof
    assume "\<exists>p t. c # cs = p @ sub @ t"
    then obtain p t where eq: "c # cs = p @ sub @ t" by blast
    show "(\<exists>t. c # cs = sub @ t) \<or> (\<exists>p t. cs = p @ sub @ t)"
    proof (cases p)
      case Nil
      with eq show ?thesis by auto
    next
      case (Cons a p')
      with eq have "cs = p' @ sub @ t" by simp
      then show ?thesis by blast
    qed
  next
    assume "(\<exists>t. c # cs = sub @ t) \<or> (\<exists>p t. cs = p @ sub @ t)"
    then show "\<exists>p t. c # cs = p @ sub @ t"
    proof
      assume "\<exists>t. c # cs = sub @ t"
      then obtain t where "c # cs = [] @ sub @ t" by auto
      then show ?thesis by blast
    next
      assume "\<exists>p t. cs = p @ sub @ t"
      then obtain p t where "c # cs = (c # p) @ sub @ t" by auto
      then show ?thesis by blast
    qed
  qed
  with Cons show ?case by (simp add: startswith_iff)
qed

lemma fold_default_lookup:
  "fold (\<lambda>key env_info.
           if key = ''goal_met'' then env_info(key \<mapsto> Bool False)
           else env_info(key \<mapsto> Float 0)) keys m k =
   (if k \<in> set keys then Some (if k = ''goal_met'' then Bool False else Float 0)
    else m k)"
  by (induction keys arbitrary: m) auto

lemma generate_default_lookup:
  "generate_default_env_info keys k =
   (if k \<in> set keys then Some (if k = ''goal_met'' then Bool False else Float 0)
    else None)"
  by (simp add: generate_default_env_info_def fold_default_lookup)

lemma dom_generate_default: "dom (generate_default_env_info keys) = set keys"
  by (auto simp: dom_def generate_default_lookup)

lemma init_fields:
  "cei_env (CompleteEnvInfo_init env name) = env"
  "default_env_info (CompleteEnvInfo_init env name) =
     generate_default_env_info (env_info_keys (CompleteEnvInfo_init env name))"
  by (simp_all add: CompleteEnvInfo_init_def Let_def)

lemma init_keys:
  "env_info_keys (CompleteEnvInfo_init env name) =
     (if is_level0_env name then base_env_info_keys
      else base_env_info_keys @ constraint_env_info_keys)"
  by (simp add: CompleteEnvInfo_init_def Let_def)

text \<open>
  A step changes the wrapped environment only: the wrapper that results is the one a fresh
  construction around the new simulator state gives, so what holds of every freshly
  constructed wrapper holds at every step of an episode.
\<close>

lemma init_env_update:
  "(CompleteEnvInfo_init env name)\<lparr>cei_env := env'\<rparr> = CompleteEnvInfo_init env' name"
  by (simp add: CompleteEnvInfo_init_def Let_def)

lemma CompleteEnvInfo_step_Inr:
  "inner (cei_env self) action = Inr ((obs, reward, done, info), env') \<Longrightarrow>
   CompleteEnvInfo_step inner self action =
     Inr ((obs, reward, done, default_env_info self ++ info), self\<lparr>cei_env := env'\<rparr>)"
  by (simp add: CompleteEnvInfo_step_def)

lemma CompleteEnvInfo_step_init:
  "inner env action = Inr ((obs, reward, done, info), env') \<Longrightarrow>
   CompleteEnvInfo_step inner (CompleteEnvInfo_init env name) action =
     Inr ((obs, reward, done,
           generate_default_env_info (env_info_keys (CompleteEnvInfo_init env name)) ++ info),
          CompleteEnvInfo_init env' name)"
  by (simp add: CompleteEnvInfo_step_Inr init_fields init_env_update)

text \<open>Binary32 rounding: the quantum found by the scan, and exactness on binary32 numbers.\<close>

lemma scan_range:
  "q - int n \<le> float32_quantum_scan n q a \<and> float32_quantum_scan n q a \<le> q"
  by (induction n q a rule: float32_quantum_scan.induct) auto

lemma scan_found:
  "float32_quantum_scan n q a = q - int n \<or> 2 powi (float32_quantum_scan n q a + 23) \<le> a"
  by (induction n q a rule: float32_quantum_scan.induct) auto

lemma round_half_even_of_int: "round_half_even (of_int k) = k"
  by (simp add: round_half_even_def)


lemma scan_eq:
  "q - int n \<le> r \<Longrightarrow> r \<le> q \<Longrightarrow> r = q - int n \<or> 2 powi (r + 23) \<le> a \<Longrightarrow>
   a < 2 powi (r + 24) \<Longrightarrow> float32_quantum_scan n q a = r"
proof (induction n arbitrary: q)
  case 0
  then show ?case by simp
next
  case (Suc n)
  show ?case
  proof (cases "2 powi (q + 23) \<le> a")
    case True
    have "q = r"
    proof (rule ccontr)
      assume "q \<noteq> r"
      with Suc.prems(2) have "r + 24 \<le> q + 23" by simp
      then have "(2::real) powi (r + 24) \<le> 2 powi (q + 23)"
        by (rule power_int_increasing) simp
      with True Suc.prems(4) show False by simp
    qed
    with True show ?thesis by simp
  next
    case False
    with Suc.prems(3) have "r \<noteq> q" by auto
    with Suc.prems(2) have le: "r \<le> q - 1" by simp
    have lo: "q - 1 - int n \<le> r" using Suc.prems(1) by simp
    have alt: "r = q - 1 - int n \<or> 2 powi (r + 23) \<le> a" using Suc.prems(3) by auto
    from Suc.IH [OF lo le alt Suc.prems(4)] False show ?thesis by simp
  qed
qed

lemma float32_quantum_eq:
  "- 149 \<le> r \<Longrightarrow> r \<le> 104 \<Longrightarrow> r = - 149 \<or> 2 powi (r + 23) \<le> a \<Longrightarrow>
   a < 2 powi (r + 24) \<Longrightarrow> float32_quantum a = r"
  unfolding float32_quantum_def by (rule scan_eq) simp_all

lemma float32_quantum_range: "- 149 \<le> float32_quantum a \<and> float32_quantum a \<le> 104"
  using scan_range [of 104 253 a] by (simp add: float32_quantum_def)

lemma float32_quantum_found:
  "float32_quantum a = - 149 \<or> 2 powi (float32_quantum a + 23) \<le> a"
  using scan_found [of 253 104 a] by (simp add: float32_quantum_def)

lemma np_float32_binary32:
  assumes "is_binary32 x"
  shows "np_float32 x = Fin32 x"
proof -
  from assms obtain m e where m: "\<bar>m\<bar> < 2 ^ 24" and e: "- 149 \<le> e" "e \<le> 104"
    and x: "x = of_int m * 2 powi e"
    unfolding is_binary32_def by blast
  define q where "q = float32_quantum \<bar>x\<bar>"
  have qr: "- 149 \<le> q" "q \<le> 104"
    using float32_quantum_range [of "\<bar>x\<bar>"] by (simp_all add: q_def)
  have ax: "\<bar>x\<bar> = of_int \<bar>m\<bar> * 2 powi e"
    by (simp add: x abs_mult)
  have m': "(of_int \<bar>m\<bar> :: real) < 2 ^ 24"
    using m by (metis of_int_less_iff of_int_numeral of_int_power)
  have pos: "(0::real) < 2 powi e"
    by (simp add: zero_less_power_int)
  have lt: "\<bar>x\<bar> < 2 powi (e + 24)"
  proof -
    have "\<bar>x\<bar> < 2 ^ 24 * 2 powi e"
      unfolding ax using m' pos by (rule mult_strict_right_mono)
    also have "\<dots> = 2 powi (e + 24)"
      by (simp add: power_int_add)
    finally show ?thesis .
  qed
  have qe: "q \<le> e"
  proof (rule ccontr)
    assume "\<not> q \<le> e"
    then have gt: "e + 24 \<le> q + 23" by simp
    with e have "q \<noteq> - 149" by simp
    with float32_quantum_found [of "\<bar>x\<bar>"] have "2 powi (q + 23) \<le> \<bar>x\<bar>"
      by (simp add: q_def)
    moreover from gt have "(2::real) powi (e + 24) \<le> 2 powi (q + 23)"
      by (rule power_int_increasing) simp
    ultimately show False using lt by simp
  qed
  define k where "k = m * 2 ^ nat (e - q)"
  have pw: "(2::real) powi e = 2 ^ nat (e - q) * 2 powi q"
  proof -
    have nn: "(2::real) powi (e - q) = 2 ^ nat (e - q)"
      using qe by (simp add: power_int_def)
    have "(2::real) powi e = 2 powi ((e - q) + q)"
      by simp
    also have "\<dots> = 2 powi (e - q) * 2 powi q"
      by (rule power_int_add) simp
    finally show ?thesis by (simp only: nn)
  qed
  have qpos: "(0::real) < 2 powi q"
    by (simp add: zero_less_power_int)
  have xk: "x = of_int k * 2 powi q"
    by (simp add: x k_def pw)
  then have div: "x / 2 powi q = of_int k"
    using qpos by simp
  have y: "of_int (round_half_even (x / 2 powi q)) * 2 powi q = x"
    by (simp only: div round_half_even_of_int xk [symmetric])
  have bound: "\<bar>x\<bar> < 2 ^ 128"
  proof -
    have "(2::real) powi (e + 24) \<le> 2 powi 128"
      using e by (intro power_int_increasing) simp_all
    with lt show ?thesis by simp
  qed
  then have "\<not> 2 ^ 128 \<le> x" "\<not> x \<le> - (2 ^ 128)"
    by (simp_all add: abs_less_iff)
  then show ?thesis
    by (simp add: np_float32_def Let_def q_def [symmetric] y)
qed

lemma is_binary32_minus: "is_binary32 x \<Longrightarrow> is_binary32 (- x)"
proof -
  assume "is_binary32 x"
  then obtain m e where "\<bar>m\<bar> < 2 ^ 24" "- 149 \<le> e" "e \<le> 104" "x = of_int m * 2 powi e"
    unfolding is_binary32_def by blast
  then have "\<bar>- m\<bar> < 2 ^ 24 \<and> - 149 \<le> e \<and> e \<le> 104 \<and> - x = of_int (- m) * 2 powi e"
    by simp
  then show "is_binary32 (- x)"
    unfolding is_binary32_def by blast
qed

lemma is_binary32_examples:
  "is_binary32 0" "is_binary32 1" "is_binary32 (- 1)" "is_binary32 (5 / 2)"
proof -
  have "(0::real) = of_int 0 * 2 powi 0" by simp
  then show "is_binary32 0" unfolding is_binary32_def
    by (intro exI [where x = 0] conjI) simp_all
  have "(1::real) = of_int 1 * 2 powi 0" by simp
  then show "is_binary32 1" unfolding is_binary32_def
    by (intro exI [where x = 1] exI [where x = 0] conjI) simp_all
  have "(- 1::real) = of_int (- 1) * 2 powi 0" by simp
  then show "is_binary32 (- 1)" unfolding is_binary32_def
    by (intro exI [where x = "- 1"] exI [where x = 0] conjI) simp_all
  have "(5 / 2::real) = of_int 5 * 2 powi (- 1)" by (simp add: power_int_minus)
  then show "is_binary32 (5 / 2)" unfolding is_binary32_def
    by (intro exI [where x = 5] exI [where x = "- 1"] conjI) simp_all
qed

text \<open>
  The binary64 number nearest to 0.1, which is what the Python literal \<^verbatim>\<open>0.1\<close> denotes, is
  not a binary32 number: its conversion is 0.100000001490116119384765625.
\<close>

lemma np_float32_double_tenth:
  "np_float32 (3602879701896397 / 36028797018963968) = Fin32 (13421773 / 134217728)"
proof -
  let ?x = "3602879701896397 / 36028797018963968 :: real"
  have ab: "\<bar>?x\<bar> = ?x"
    by simp
  have q: "float32_quantum ?x = - 27"
    by (rule float32_quantum_eq) (simp_all add: power_int_minus)
  have p: "(2::real) powi (- 27) = 1 / 134217728"
    by (simp add: power_int_minus)
  have r: "round_half_even (?x / (1 / 134217728)) = 13421773"
    by (simp add: round_half_even_def Let_def)
  have "np_float32 ?x =
      (if 2 ^ 128 \<le> real_of_int 13421773 * (1 / 134217728) then PosInf32
       else if real_of_int 13421773 * (1 / 134217728) \<le> - (2 ^ 128) then NegInf32
       else Fin32 (real_of_int 13421773 * (1 / 134217728)))"
    by (simp only: np_float32_def Let_def ab q p r)
  also have "\<dots> = Fin32 (13421773 / 134217728)"
    by simp
  finally show ?thesis .
qed

text \<open>Facts about the test doubles and the name of a level-0 benchmark.\<close>

lemma stub_step_run:
  "stub_step result env action = Inr (result, env)"
  by (simp add: stub_step_def)

lemma result_info_Inr:
  "result_info (Inr ((obs, reward, done, info), env')) = info"
  by (simp add: result_info_def)

lemma ne_if_mem: "x \<in> A \<Longrightarrow> x \<notin> B \<Longrightarrow> A \<noteq> B"
  by blast

lemma level0_PointGoal0: "is_level0_env ''Safexp-PointGoal0-v0''"
  by (simp add: is_level0_env_def)

lemma keys_PointGoal0:
  "env_info_keys (CompleteEnvInfo_init env ''Safexp-PointGoal0-v0'') =
     [''cost_exception'', ''goal_met'', ''cost'']"
  by (simp add: init_keys level0_PointGoal0 base_env_info_keys_def)

text \<open>What \<^verbatim>\<open>load\<close> hands to \<^verbatim>\<open>wrap_env\<close> once \<^verbatim>\<open>gym.make\<close> has returned.\<close>

lemma env_num_steps_loaded:
  "env_num_steps num_steps (Plain (CompleteEnvInfo_init base name)) = num_steps base"
  "env_num_steps num_steps (Vectorized (VectorReward_init (CompleteEnvInfo_init base name))) =
     num_steps base"
  by (simp_all add: env_num_steps_def init_fields VectorReward_init_def)

lemma load_Inr:
  assumes "gym_make name = Inr base"
  shows "load gym_make num_steps wrap_env name env_id discount L unconstrained gw aw =
           wrap_env
             \<lparr>arg_env =
                (if unconstrained then Plain (CompleteEnvInfo_init base name)
                 else Vectorized (VectorReward_init (CompleteEnvInfo_init base name))),
              arg_env_id = env_id, arg_discount = discount,
              arg_max_episode_steps =
                min (num_steps base - 1)
                  (case L of
                     None \<Rightarrow> num_steps base - 1
                   | Some l \<Rightarrow> if l = 0 then num_steps base - 1 else l),
              arg_gym_env_wrappers = gw, arg_alf_env_wrappers = aw\<rparr>"
  using assms
  by (cases unconstrained; cases L) (simp_all add: load_def Let_def env_num_steps_loaded)

lemma gym_env_step_Plain:
  assumes "base_step s a = Inr ((obs, r, done, info), s')"
  shows "gym_env_step base_step (Plain (CompleteEnvInfo_init s name)) a =
           Inr ((obs, Scalar r, done,
                 generate_default_env_info (env_info_keys (CompleteEnvInfo_init s name)) ++ info),
                Plain (CompleteEnvInfo_init s' name))"
  by (simp add: gym_env_step_def
      CompleteEnvInfo_step_init [where inner = base_step and env = s and action = a, OF assms])

section \<open>Claims\<close>

subsection \<open>Availability\<close>

text \<open>
  C9. \<^verbatim>\<open>is_available\<close> is a total boolean query on the module globals: it is true when
  both \<^verbatim>\<open>mujoco_py\<close> and \<^verbatim>\<open>safety_gym\<close> were importable when the module was loaded, and
  false, not an error, when either import failed.
\<close>

theorem is_available_imports:
  "is_available (module_imports mujoco_importable safety_gym_importable) =
     (mujoco_importable \<and> safety_gym_importable)"
  by (simp add: is_available_def module_imports_def import_module_def)

subsection \<open>Level classification\<close>

text \<open>
  C10. The level classification is substring membership: a name is treated as level 0,
  and gets the three base keys only, exactly when \<^verbatim>\<open>0-v\<close> occurs somewhere in it; every
  other name gets all ten keys.
\<close>

theorem level0_is_substring:
  "(is_level0_env name \<longleftrightarrow> (\<exists>p s. name = p @ ''0-v'' @ s)) \<and>
   env_info_keys (CompleteEnvInfo_init env name) =
     (if \<exists>p s. name = p @ ''0-v'' @ s
      then [''cost_exception'', ''goal_met'', ''cost'']
      else [''cost_exception'', ''goal_met'', ''cost'',
            ''cost_vases_contact'', ''cost_pillars'', ''cost_buttons'',
            ''cost_gremlins'', ''cost_vases_displace'', ''cost_vases_velocity'',
            ''cost_hazards''])"
  by (simp add: init_keys is_level0_env_def str_contains_iff base_env_info_keys_def
      constraint_env_info_keys_def)

subsection \<open>The key set of the normalized info\<close>

text \<open>
  C1 (as amended). For every environment name and every info dict returned by the underlying
  step, the record returned by \<^verbatim>\<open>CompleteEnvInfo.step\<close> has as its key set the expected
  keys of the name's level classification together with the keys the underlying dict
  reports. Whenever the reported keys are among the expected ones, whatever subset of them
  it is, the key set is exactly the expected one: the 3 keys \<^verbatim>\<open>cost_exception\<close>,
  \<^verbatim>\<open>goal_met\<close>, \<^verbatim>\<open>cost\<close> for level-0 names, and those plus the seven constraint-cost keys,
  10 in all, otherwise.
\<close>

theorem complete_info_keys:
  assumes "inner env action = Inr ((obs, reward, done, info), env')"
  shows "\<exists>out.
           CompleteEnvInfo_step inner (CompleteEnvInfo_init env name) action =
             Inr ((obs, reward, done, out), CompleteEnvInfo_init env' name) \<and>
           dom out = set (env_info_keys (CompleteEnvInfo_init env name)) \<union> dom info \<and>
           (dom info \<subseteq> set (env_info_keys (CompleteEnvInfo_init env name)) \<longrightarrow>
              dom out =
                (if is_level0_env name then {''cost_exception'', ''goal_met'', ''cost''}
                 else {''cost_exception'', ''goal_met'', ''cost'',
                       ''cost_vases_contact'', ''cost_pillars'', ''cost_buttons'',
                       ''cost_gremlins'', ''cost_vases_displace'', ''cost_vases_velocity'',
                       ''cost_hazards''}) \<and>
              card (dom out) = (if is_level0_env name then 3 else 10))"
proof -
  let ?keys = "env_info_keys (CompleteEnvInfo_init env name)"
  let ?out = "generate_default_env_info ?keys ++ info"
  have step: "CompleteEnvInfo_step inner (CompleteEnvInfo_init env name) action =
      Inr ((obs, reward, done, ?out), CompleteEnvInfo_init env' name)"
    using assms by (rule CompleteEnvInfo_step_init)
  have dom: "dom ?out = set ?keys \<union> dom info"
    by (auto simp: dom_generate_default)
  have keys: "set ?keys =
      (if is_level0_env name then {''cost_exception'', ''goal_met'', ''cost''}
       else {''cost_exception'', ''goal_met'', ''cost'',
             ''cost_vases_contact'', ''cost_pillars'', ''cost_buttons'',
             ''cost_gremlins'', ''cost_vases_displace'', ''cost_vases_velocity'',
             ''cost_hazards''})"
    by (simp add: init_keys base_env_info_keys_def constraint_env_info_keys_def)
  have card: "card (set ?keys) = (if is_level0_env name then 3 else 10)"
    by (simp add: init_keys base_env_info_keys_def constraint_env_info_keys_def)
  have "dom info \<subseteq> set ?keys \<longrightarrow> dom ?out = set ?keys"
    using dom by auto
  with step dom keys card show ?thesis
    by (metis (no_types, lifting))
qed

text \<open>
  A level-0 name whose simulator reports \<^verbatim>\<open>cost\<close> only: the record has the three keys.
\<close>

theorem complete_info_keys_witness:
  "dom [''cost'' \<mapsto> Float 1] \<subseteq> {''cost_exception'', ''goal_met'', ''cost''} \<and>
   dom (result_info
          (CompleteEnvInfo_step
             (stub_step ((), 0, False, [''cost'' \<mapsto> Float 1])
                :: (unit, unit, unit, real, unit) step_fn)
             (CompleteEnvInfo_init () ''Safexp-PointGoal0-v0'') ())) =
     {''cost_exception'', ''goal_met'', ''cost''}"
proof -
  let ?info = "[''cost'' \<mapsto> Float 1]"
  let ?inner = "stub_step ((), 0, False, ?info) :: (unit, unit, unit, real, unit) step_fn"
  let ?self = "CompleteEnvInfo_init () ''Safexp-PointGoal0-v0''"
  have run: "?inner () () = Inr (((), 0, False, ?info), ())"
    by (rule stub_step_run)
  have sub: "dom ?info \<subseteq> set (env_info_keys ?self)"
    by (simp add: keys_PointGoal0)
  from complete_info_keys [where inner = ?inner and env = "()" and action = "()"
      and name = "''Safexp-PointGoal0-v0''", OF run]
  obtain out where
    step: "CompleteEnvInfo_step ?inner ?self () = Inr (((), 0, False, out), ?self)"
    and imp: "dom ?info \<subseteq> set (env_info_keys ?self) \<longrightarrow>
       dom out =
         (if is_level0_env ''Safexp-PointGoal0-v0''
          then {''cost_exception'', ''goal_met'', ''cost''}
          else {''cost_exception'', ''goal_met'', ''cost'',
                ''cost_vases_contact'', ''cost_pillars'', ''cost_buttons'',
                ''cost_gremlins'', ''cost_vases_displace'', ''cost_vases_velocity'',
                ''cost_hazards''}) \<and>
       card (dom out) = (if is_level0_env ''Safexp-PointGoal0-v0'' then 3 else 10)"
    by (elim exE conjE)
  from imp sub have "dom out =
         (if is_level0_env ''Safexp-PointGoal0-v0''
          then {''cost_exception'', ''goal_met'', ''cost''}
          else {''cost_exception'', ''goal_met'', ''cost'',
                ''cost_vases_contact'', ''cost_pillars'', ''cost_buttons'',
                ''cost_gremlins'', ''cost_vases_displace'', ''cost_vases_velocity'',
                ''cost_hazards''})"
    by (elim impE conjE)
  then have d: "dom out = {''cost_exception'', ''goal_met'', ''cost''}"
    by (simp only: level0_PointGoal0 if_True)
  have r: "result_info (CompleteEnvInfo_step ?inner ?self ()) = out"
    by (simp only: step result_info_Inr)
  have "dom ?info \<subseteq> {''cost_exception'', ''goal_met'', ''cost''}"
    by simp
  with d r show ?thesis by (simp only: simp_thms)
qed

text \<open>
  C1 as stated fails when the underlying dict reports a key outside the expected set:
  \<^verbatim>\<open>update\<close> copies every reported key, so under a level-0 name a reported
  \<^verbatim>\<open>cost_hazards\<close> is a fourth key of the record.
\<close>

theorem complete_info_keys_counterexample:
  "is_level0_env ''Safexp-PointGoal0-v0'' \<and>
   ''cost_hazards'' \<in>
     dom (result_info
            (CompleteEnvInfo_step
               (stub_step ((), 0, False, [''cost_hazards'' \<mapsto> Float 1])
                  :: (unit, unit, unit, real, unit) step_fn)
               (CompleteEnvInfo_init () ''Safexp-PointGoal0-v0'') ())) \<and>
   dom (result_info
          (CompleteEnvInfo_step
             (stub_step ((), 0, False, [''cost_hazards'' \<mapsto> Float 1])
                :: (unit, unit, unit, real, unit) step_fn)
             (CompleteEnvInfo_init () ''Safexp-PointGoal0-v0'') ())) \<noteq>
     {''cost_exception'', ''goal_met'', ''cost''}"
proof -
  let ?info = "[''cost_hazards'' \<mapsto> Float 1]"
  let ?inner = "stub_step ((), 0, False, ?info) :: (unit, unit, unit, real, unit) step_fn"
  let ?self = "CompleteEnvInfo_init () ''Safexp-PointGoal0-v0''"
  let ?out = "generate_default_env_info (env_info_keys ?self) ++ ?info"
  have run: "?inner () () = Inr (((), 0, False, ?info), ())"
    by (rule stub_step_run)
  have step: "CompleteEnvInfo_step ?inner ?self () = Inr (((), 0, False, ?out), ?self)"
    using run by (rule CompleteEnvInfo_step_init)
  have r: "result_info (CompleteEnvInfo_step ?inner ?self ()) = ?out"
    by (simp only: step result_info_Inr)
  have mem: "''cost_hazards'' \<in> dom ?out"
    by simp
  have n: "''cost_hazards'' \<notin> {''cost_exception'', ''goal_met'', ''cost''}"
    by simp
  from mem n have "dom ?out \<noteq> {''cost_exception'', ''goal_met'', ''cost''}"
    by (rule ne_if_mem)
  with mem r level0_PointGoal0 show ?thesis by (simp only: simp_thms)
qed

subsection \<open>Defaults for the keys the simulator omits\<close>



subsection \<open>Overlay of a complete info dict\<close>

text \<open>
  C6. When the underlying info dict has a value for every expected key of the environment's
  level, the record returned by \<^verbatim>\<open>CompleteEnvInfo.step\<close> maps each expected key to the
  underlying dict's value; no default is left in it (the record is the underlying dict).
\<close>

theorem complete_info_overlay:
  assumes "inner env action = Inr ((obs, reward, done, info), env')"
    and "\<forall>k \<in> set (env_info_keys (CompleteEnvInfo_init env name)). info k \<noteq> None"
  shows "\<exists>out.
           CompleteEnvInfo_step inner (CompleteEnvInfo_init env name) action =
             Inr ((obs, reward, done, out), CompleteEnvInfo_init env' name) \<and>
           (\<forall>k \<in> set (env_info_keys (CompleteEnvInfo_init env name)). out k = info k) \<and>
           out = info"
proof -
  let ?keys = "env_info_keys (CompleteEnvInfo_init env name)"
  let ?out = "generate_default_env_info ?keys ++ info"
  have step: "CompleteEnvInfo_step inner (CompleteEnvInfo_init env name) action =
      Inr ((obs, reward, done, ?out), CompleteEnvInfo_init env' name)"
    using assms(1) by (rule CompleteEnvInfo_step_init)
  have eq: "?out = info"
  proof
    fix x
    show "?out x = info x"
    proof (cases "info x")
      case None
      with assms(2) have "x \<notin> set ?keys" by auto
      with None show ?thesis by (simp add: map_add_def generate_default_lookup)
    next
      case (Some v)
      then show ?thesis by (simp add: map_add_def)
    qed
  qed
  then have "\<forall>k \<in> set ?keys. ?out k = info k" by simp
  with step eq show ?thesis by blast
qed

text \<open>A level-0 simulator that reports all three keys.\<close>

theorem complete_info_overlay_witness:
  "[''cost_exception'' \<mapsto> Float 1, ''goal_met'' \<mapsto> Bool True, ''cost'' \<mapsto> Float 1]
     ''cost_exception'' \<noteq> None \<and>
   [''cost_exception'' \<mapsto> Float 1, ''goal_met'' \<mapsto> Bool True, ''cost'' \<mapsto> Float 1]
     ''goal_met'' \<noteq> None \<and>
   [''cost_exception'' \<mapsto> Float 1, ''goal_met'' \<mapsto> Bool True, ''cost'' \<mapsto> Float 1]
     ''cost'' \<noteq> None \<and>
   result_info
     (CompleteEnvInfo_step
        (stub_step ((), 0,  False,
           [''cost_exception'' \<mapsto> Float 1, ''goal_met'' \<mapsto> Bool True, ''cost'' \<mapsto> Float 1])
           :: (unit, unit, unit, real, unit) step_fn)
        (CompleteEnvInfo_init () ''Safexp-PointGoal0-v0'') ()) =
     [''cost_exception'' \<mapsto> Float 1, ''goal_met'' \<mapsto> Bool True, ''cost'' \<mapsto> Float 1]"
proof -
  let ?info = "[''cost_exception'' \<mapsto> Float 1, ''goal_met'' \<mapsto> Bool True,
                ''cost'' \<mapsto> Float 1]"
  let ?inner = "stub_step ((), 0, False, ?info) :: (unit, unit, unit, real, unit) step_fn"
  let ?self = "CompleteEnvInfo_init () ''Safexp-PointGoal0-v0''"
  have run: "?inner () () = Inr (((), 0, False, ?info), ())"
    by (rule stub_step_run)
  have k1: "?info ''cost_exception'' \<noteq> None" by simp
  have k2: "?info ''goal_met'' \<noteq> None" by simp
  have k3: "?info ''cost'' \<noteq> None" by simp
  have all: "\<forall>k \<in> set (env_info_keys ?self). ?info k \<noteq> None"
    by (simp add: keys_PointGoal0)
  from complete_info_overlay [where inner = ?inner and env = "()" and action = "()"
      and name = "''Safexp-PointGoal0-v0''", OF run all]
  obtain out where
    step: "CompleteEnvInfo_step ?inner ?self () = Inr (((), 0, False, out), ?self)"
    and eq: "out = ?info"
    by (elim exE conjE)
  have r: "result_info (CompleteEnvInfo_step ?inner ?self ()) = out"
    by (simp only: step result_info_Inr)
  from r eq have "result_info (CompleteEnvInfo_step ?inner ?self ()) = ?info"
    by (rule trans)
  with k1 k2 k3 show ?thesis by (intro conjI)
qed

subsection \<open>Frame of the info normalizer\<close>

text \<open>
  C8. \<^verbatim>\<open>CompleteEnvInfo.step\<close> returns the observation, the scalar reward and the done flag
  as the underlying step produced them; only the info record is another one. The wrapped
  environment is left in the state the underlying step left it in, and the wrapper's key
  list and default record are unchanged.
\<close>

theorem complete_info_frame:
  assumes "inner (cei_env self) action = Inr ((obs, reward, done, info), env')"
  shows "\<exists>env_info self'.
           CompleteEnvInfo_step inner self action = Inr ((obs, reward, done, env_info), self') \<and>
           cei_env self' = env' \<and>
           env_info_keys self' = env_info_keys self \<and>
           default_env_info self' = default_env_info self"
  using assms by (simp add: CompleteEnvInfo_step_def)

text \<open>One step of a level-1 wrapper over a simulator returning observation 7, reward 2.5.\<close>

theorem complete_info_frame_witness:
  "(stub_step (7::nat, 5 / 2, True, [''cost'' \<mapsto> Float 1])
      :: (unit, unit, nat, real, unit) step_fn)
     (cei_env (CompleteEnvInfo_init () ''Safexp-PointGoal1-v0'')) () =
     Inr ((7, 5 / 2, True, [''cost'' \<mapsto> Float 1]), ()) \<and>
   (\<exists>env_info self'.
      CompleteEnvInfo_step
        (stub_step (7::nat, 5 / 2, True, [''cost'' \<mapsto> Float 1])
           :: (unit, unit, nat, real, unit) step_fn)
        (CompleteEnvInfo_init () ''Safexp-PointGoal1-v0'') () =
        Inr ((7, 5 / 2, True, env_info), self') \<and>
      cei_env self' = () \<and>
      env_info_keys self' = env_info_keys (CompleteEnvInfo_init () ''Safexp-PointGoal1-v0'') \<and>
      default_env_info self' =
        default_env_info (CompleteEnvInfo_init () ''Safexp-PointGoal1-v0''))"
proof -
  let ?info = "[''cost'' \<mapsto> Float 1]"
  let ?inner = "stub_step (7::nat, 5 / 2, True, ?info) :: (unit, unit, nat, real, unit) step_fn"
  let ?self = "CompleteEnvInfo_init () ''Safexp-PointGoal1-v0''"
  have run: "?inner (cei_env ?self) () = Inr ((7, 5 / 2, True, ?info), ())"
    by (simp add: stub_step_def)
  from run complete_info_frame [where inner = ?inner and self = ?self and action = "()", OF run]
  show ?thesis by (rule conjI)
qed

subsection \<open>The reward vector\<close>

text \<open>
  C3 (as amended). When the underlying step returns scalar reward \<open>r\<close> and an info dict
  with \<^verbatim>\<open>cost\<close> = \<open>c\<close> and \<^verbatim>\<open>goal_met\<close> = \<open>g\<close>, \<^verbatim>\<open>VectorReward.step\<close> returns as reward the
  \<^verbatim>\<open>float32\<close> array of \<open>r\<close>, \<open>-c\<close> and \<open>1.0 if g else 0.0\<close>: the first two each rounded to the
  nearest binary32 value, the third exactly 1.0 or 0.0. When \<open>r\<close> and \<open>c\<close> are binary32
  numbers the reward is exactly \<open>(r, -c, 1.0 if g else 0.0)\<close>. The observation, the done
  flag and the info dict are returned unchanged.
\<close>

theorem vector_reward_step:
  assumes "inner (vr_env self) action = Inr ((obs, r, done, info), env')"
    and "info ''cost'' = Some (Float c)"
    and "info ''goal_met'' = Some (Bool g)"
  shows "VectorReward_step inner self action =
           Inr ((obs, [np_float32 r, np_float32 (- c), Fin32 (if g then 1 else 0)],
                 done, info),
                self\<lparr>vr_env := env'\<rparr>) \<and>
         (is_binary32 r \<and> is_binary32 c \<longrightarrow>
            VectorReward_step inner self action =
              Inr ((obs, [Fin32 r, Fin32 (- c), Fin32 (if g then 1 else 0)], done, info),
                   self\<lparr>vr_env := env'\<rparr>))"
proof -
  have third: "np_float32 (if g then 1 else 0) = Fin32 (if g then 1 else 0)"
    by (rule np_float32_binary32) (simp add: is_binary32_examples)
  have step: "VectorReward_step inner self action =
      Inr ((obs, [np_float32 r, np_float32 (- c), Fin32 (if g then 1 else 0)], done, info),
           self\<lparr>vr_env := env'\<rparr>)"
    using assms third
    by (simp add: VectorReward_step_def py_neg_def np_array_float32_def)
  have "np_float32 r = Fin32 r \<and> np_float32 (- c) = Fin32 (- c)"
    if "is_binary32 r \<and> is_binary32 c"
    using that by (simp add: np_float32_binary32 is_binary32_minus)
  with step show ?thesis by simp
qed

text \<open>Reward 2.5, cost 1 and the goal met give exactly the vector \<open>(2.5, -1, 1)\<close>.\<close>

theorem vector_reward_step_witness:
  "(stub_step (7::nat, 5 / 2, False, [''cost'' \<mapsto> Float 1, ''goal_met'' \<mapsto> Bool True])
      :: (unit, unit, nat, real, unit) step_fn) (vr_env (VectorReward_init ())) () =
     Inr ((7, 5 / 2, False, [''cost'' \<mapsto> Float 1, ''goal_met'' \<mapsto> Bool True]), ()) \<and>
   [''cost'' \<mapsto> Float 1, ''goal_met'' \<mapsto> Bool True] ''cost'' = Some (Float 1) \<and>
   [''cost'' \<mapsto> Float 1, ''goal_met'' \<mapsto> Bool True] ''goal_met'' = Some (Bool True) \<and>
   is_binary32 (5 / 2) \<and> is_binary32 1 \<and>
   VectorReward_step
     (stub_step (7::nat, 5 / 2, False, [''cost'' \<mapsto> Float 1, ''goal_met'' \<mapsto> Bool True])
        :: (unit, unit, nat, real, unit) step_fn)
     (VectorReward_init ()) () =
     Inr ((7, [Fin32 (5 / 2), Fin32 (- 1), Fin32 1], False,
           [''cost'' \<mapsto> Float 1, ''goal_met'' \<mapsto> Bool True]),
          VectorReward_init ())"
proof -
  let ?info = "[''cost'' \<mapsto> Float 1, ''goal_met'' \<mapsto> Bool True]"
  let ?inner = "stub_step (7::nat, 5 / 2, False, ?info) :: (unit, unit, nat, real, unit) step_fn"
  let ?self = "VectorReward_init () :: unit VectorReward"
  have run: "?inner (vr_env ?self) () = Inr ((7, 5 / 2, False, ?info), ())"
    by (simp add: stub_step_def)
  have c: "?info ''cost'' = Some (Float 1)" by simp
  have g: "?info ''goal_met'' = Some (Bool True)" by simp
  have b: "is_binary32 (5 / 2) \<and> is_binary32 1"
    by (simp add: is_binary32_examples)
  from vector_reward_step [where inner = ?inner and self = ?self and action = "()", OF run c g]
  have "is_binary32 (5 / 2) \<and> is_binary32 1 \<longrightarrow>
      VectorReward_step ?inner ?self () =
        Inr ((7, [Fin32 (5 / 2), Fin32 (- 1), Fin32 (if True then 1 else 0)], False, ?info),
             ?self\<lparr>vr_env := ()\<rparr>)"
    by (elim conjE)
  with b have "VectorReward_step ?inner ?self () =
      Inr ((7, [Fin32 (5 / 2), Fin32 (- 1), Fin32 (if True then 1 else 0)], False, ?info),
           ?self\<lparr>vr_env := ()\<rparr>)"
    by (elim impE)
  then have "VectorReward_step ?inner ?self () =
      Inr ((7, [Fin32 (5 / 2), Fin32 (- 1), Fin32 1], False, ?info), ?self)"
    by simp
  with run c g b show ?thesis by (intro conjI) (elim conjE, assumption)+
qed

text \<open>
  C3 as stated fails when the reward is not a binary32 number. With the reward the Python
  float \<^verbatim>\<open>0.1\<close> (the binary64 number 3602879701896397 / 2^55), cost 1 and the goal met,
  the first component of the returned vector is 13421773 / 2^27 =
  0.100000001490116119384765625, not the reward.
\<close>

theorem vector_reward_step_counterexample:
  "VectorReward_step
     (stub_step (7::nat, 3602879701896397 / 36028797018963968, False,
                 [''cost'' \<mapsto> Float 1, ''goal_met'' \<mapsto> Bool True])
        :: (unit, unit, nat, real, unit) step_fn)
     (VectorReward_init ()) () =
     Inr ((7, [Fin32 (13421773 / 134217728), Fin32 (- 1), Fin32 1], False,
           [''cost'' \<mapsto> Float 1, ''goal_met'' \<mapsto> Bool True]),
          VectorReward_init ()) \<and>
   [Fin32 (13421773 / 134217728), Fin32 (- 1), Fin32 1] \<noteq>
     [Fin32 (3602879701896397 / 36028797018963968), Fin32 (- 1), Fin32 1]"
proof -
  let ?info = "[''cost'' \<mapsto> Float 1, ''goal_met'' \<mapsto> Bool True]"
  let ?r = "3602879701896397 / 36028797018963968 :: real"
  let ?inner = "stub_step (7::nat, ?r, False, ?info) :: (unit, unit, nat, real, unit) step_fn"
  let ?self = "VectorReward_init () :: unit VectorReward"
  have one: "np_float32 1 = Fin32 1"
    by (rule np_float32_binary32) (rule is_binary32_examples)
  have m1: "np_float32 (- 1) = Fin32 (- 1)"
    by (rule np_float32_binary32) (rule is_binary32_examples)
  have "VectorReward_step ?inner ?self () =
      Inr ((7, [np_float32 ?r, np_float32 (- 1), np_float32 1], False, ?info), ?self)"
    by (simp add: VectorReward_step_def stub_step_def py_neg_def np_array_float32_def)
  then have step: "VectorReward_step ?inner ?self () =
      Inr ((7, [Fin32 (13421773 / 134217728), Fin32 (- 1), Fin32 1], False, ?info), ?self)"
    by (simp only: np_float32_double_tenth one m1)
  have ne: "[Fin32 (13421773 / 134217728), Fin32 (- 1), Fin32 1] \<noteq>
      [Fin32 ?r, Fin32 (- 1), Fin32 1]"
    by simp
  from step ne show ?thesis by (rule conjI)
qed

subsection \<open>Missing keys when vectorizing\<close>

text \<open>
  C7. Given that the underlying step returned, \<^verbatim>\<open>VectorReward.step\<close> raises a
  \<^verbatim>\<open>KeyError\<close> if and only if the returned info dict lacks \<^verbatim>\<open>cost\<close> or \<^verbatim>\<open>goal_met\<close>
  (for \<^verbatim>\<open>cost\<close> when it is missing, else for \<^verbatim>\<open>goal_met\<close>); nothing is substituted for
  the missing value, and with both keys present the step returns a result.
\<close>

theorem vector_reward_key_error:
  assumes "inner (vr_env self) action = Inr ((obs, r, done, info), env')"
  shows "((\<exists>k. VectorReward_step inner self action = Inl (KeyError k)) \<longleftrightarrow>
            (info ''cost'' = None \<or> info ''goal_met'' = None)) \<and>
         (info ''cost'' = None \<longrightarrow>
            VectorReward_step inner self action = Inl (KeyError ''cost'')) \<and>
         (info ''cost'' \<noteq> None \<and> info ''goal_met'' = None \<longrightarrow>
            VectorReward_step inner self action = Inl (KeyError ''goal_met'')) \<and>
         (info ''cost'' \<noteq> None \<and> info ''goal_met'' \<noteq> None \<longrightarrow>
            (\<exists>res. VectorReward_step inner self action = Inr res))"
proof (cases "info ''cost''")
  case None
  with assms show ?thesis by (simp add: VectorReward_step_def)
next
  case c: (Some cv)
  show ?thesis
  proof (cases "info ''goal_met''")
    case None
    with assms c show ?thesis by (simp add: VectorReward_step_def)
  next
    case (Some gv)
    with assms c show ?thesis by (simp add: VectorReward_step_def)
  qed
qed

text \<open>An info dict without \<^verbatim>\<open>cost\<close>: the step raises \<^verbatim>\<open>KeyError('cost')\<close>.\<close>

theorem vector_reward_key_error_witness:
  "(stub_step (7::nat, 5 / 2, False, [''goal_met'' \<mapsto> Bool True])
      :: (unit, unit, nat, real, unit) step_fn) (vr_env (VectorReward_init ())) () =
     Inr ((7, 5 / 2, False, [''goal_met'' \<mapsto> Bool True]), ()) \<and>
   [''goal_met'' \<mapsto> Bool True] ''cost'' = None \<and>
   VectorReward_step
     (stub_step (7::nat, 5 / 2, False, [''goal_met'' \<mapsto> Bool True])
        :: (unit, unit, nat, real, unit) step_fn)
     (VectorReward_init ()) () = Inl (KeyError ''cost'')"
proof -
  let ?info = "[''goal_met'' \<mapsto> Bool True]"
  let ?inner = "stub_step (7::nat, 5 / 2, False, ?info) :: (unit, unit, nat, real, unit) step_fn"
  let ?self = "VectorReward_init () :: unit VectorReward"
  have run: "?inner (vr_env ?self) () = Inr ((7, 5 / 2, False, ?info), ())"
    by (simp add: stub_step_def)
  have miss: "?info ''cost'' = None" by simp
  from vector_reward_key_error [where inner = ?inner and self = ?self and action = "()", OF run]
  have "?info ''cost'' = None \<longrightarrow> VectorReward_step ?inner ?self () = Inl (KeyError ''cost'')"
    by (elim conjE)
  with miss have "VectorReward_step ?inner ?self () = Inl (KeyError ''cost'')"
    by (elim impE)
  with run miss show ?thesis by (intro conjI)
qed

subsection \<open>The step limit\<close>

text \<open>
  C2. With \<open>N\<close> the environment's \<^verbatim>\<open>num_steps\<close> and \<open>L\<close> the caller's
  \<^verbatim>\<open>max_episode_steps\<close>, the step limit \<^verbatim>\<open>load\<close> passes to \<^verbatim>\<open>wrap_env\<close> is \<open>N - 1\<close> when
  \<open>L\<close> is \<^verbatim>\<open>None\<close> or 0 and \<open>min (N - 1) L\<close> otherwise; it is never above \<open>N - 1\<close> and, for
  a positive \<open>L\<close>, never above \<open>L\<close>.
\<close>

theorem load_step_limit:
  assumes "gym_make name = Inr base"
  shows "\<exists>m. load gym_make num_steps wrap_env name env_id discount L unconstrained gw aw =
           wrap_env
             \<lparr>arg_env =
                (if unconstrained then Plain (CompleteEnvInfo_init base name)
                 else Vectorized (VectorReward_init (CompleteEnvInfo_init base name))),
              arg_env_id = env_id, arg_discount = discount,
              arg_max_episode_steps = m,
              arg_gym_env_wrappers = gw, arg_alf_env_wrappers = aw\<rparr> \<and>
           m = (case L of
                  None \<Rightarrow> num_steps base - 1
                | Some l \<Rightarrow> if l = 0 then num_steps base - 1 else min (num_steps base - 1) l) \<and>
           m \<le> num_steps base - 1 \<and>
           (\<forall>l. L = Some l \<and> 0 < l \<longrightarrow> m \<le> l)"
proof -
  let ?N = "num_steps base"
  let ?m = "min (?N - 1) (case L of None \<Rightarrow> ?N - 1 | Some l \<Rightarrow> if l = 0 then ?N - 1 else l)"
  have eq: "?m = (case L of None \<Rightarrow> ?N - 1
                  | Some l \<Rightarrow> if l = 0 then ?N - 1 else min (?N - 1) l)"
    by (simp split: option.split)
  have le: "?m \<le> ?N - 1"
    by simp
  have cap: "\<forall>l. L = Some l \<and> 0 < l \<longrightarrow> ?m \<le> l"
    by simp
  from load_Inr [where gym_make = gym_make and name = name, OF assms] eq le cap show ?thesis
    by (intro exI [where x = ?m] conjI)
qed

text \<open>\<open>N = 1000\<close> and \<open>L = 500\<close> give the limit 500.\<close>

theorem load_step_limit_witness:
  "((\<lambda>n. Inr ()) :: string \<Rightarrow> unit exn + unit) ''Safexp-PointGoal1-v0'' = Inr () \<and>
   load (\<lambda>n. Inr ()) (\<lambda>e. 1000) (Inr :: _ \<Rightarrow> unit exn + _) ''Safexp-PointGoal1-v0''
        () 1 (Some 500) True () () =
     Inr \<lparr>arg_env = Plain (CompleteEnvInfo_init () ''Safexp-PointGoal1-v0''),
          arg_env_id = (), arg_discount = 1, arg_max_episode_steps = 500,
          arg_gym_env_wrappers = (), arg_alf_env_wrappers = ()\<rparr>"
proof -
  let ?make = "(\<lambda>n. Inr ()) :: string \<Rightarrow> unit exn + unit"
  let ?name = "''Safexp-PointGoal1-v0''"
  have made: "?make ?name = Inr ()"
    by simp
  from load_step_limit [where gym_make = ?make and name = ?name and num_steps = "\<lambda>e. 1000"
      and wrap_env = "Inr :: (unit, unit, unit, unit) wrap_env_args \<Rightarrow>
        unit exn + (unit, unit, unit, unit) wrap_env_args"
      and env_id = "()" and discount = 1 and L = "Some 500" and unconstrained = True
      and gw = "()" and aw = "()", OF made]
  obtain m where
    eq: "load ?make (\<lambda>e. 1000) (Inr :: (unit, unit, unit, unit) wrap_env_args \<Rightarrow>
            unit exn + (unit, unit, unit, unit) wrap_env_args) ?name () 1 (Some 500) True () () =
          Inr \<lparr>arg_env = (if True then Plain (CompleteEnvInfo_init () ?name)
                           else Vectorized (VectorReward_init (CompleteEnvInfo_init () ?name))),
               arg_env_id = (), arg_discount = 1, arg_max_episode_steps = m,
               arg_gym_env_wrappers = (), arg_alf_env_wrappers = ()\<rparr>"
    and m: "m = (case Some (500::int) of None \<Rightarrow> 1000 - 1
                 | Some l \<Rightarrow> if l = 0 then 1000 - 1 else min (1000 - 1) l)"
    by (elim exE conjE)
  from m have "m = 500" by simp
  with eq made show ?thesis by simp
qed

text \<open>The other two examples: \<open>N = 1000\<close> with no limit, and with \<open>L = 2000\<close>, give 999.\<close>

lemma load_step_limit_examples:
  "gym_make name = Inr base \<Longrightarrow> num_steps base = 1000 \<Longrightarrow>
   load gym_make num_steps Inr name env_id discount None unconstrained gw aw =
     Inr \<lparr>arg_env =
            (if unconstrained then Plain (CompleteEnvInfo_init base name)
             else Vectorized (VectorReward_init (CompleteEnvInfo_init base name))),
          arg_env_id = env_id, arg_discount = discount, arg_max_episode_steps = 999,
          arg_gym_env_wrappers = gw, arg_alf_env_wrappers = aw\<rparr>"
  "gym_make name = Inr base \<Longrightarrow> num_steps base = 1000 \<Longrightarrow>
   load gym_make num_steps Inr name env_id discount (Some 2000) unconstrained gw aw =
     Inr \<lparr>arg_env =
            (if unconstrained then Plain (CompleteEnvInfo_init base name)
             else Vectorized (VectorReward_init (CompleteEnvInfo_init base name))),
          arg_env_id = env_id, arg_discount = discount, arg_max_episode_steps = 999,
          arg_gym_env_wrappers = gw, arg_alf_env_wrappers = aw\<rparr>"
  by (simp_all add: load_Inr)

subsection \<open>Unconstrained mode\<close>

text \<open>
  C5. With the \<^verbatim>\<open>unconstrained\<close> flag set, \<^verbatim>\<open>load\<close> does not apply \<^verbatim>\<open>VectorReward\<close>: the
  environment it hands on is the simulator wrapped by \<^verbatim>\<open>CompleteEnvInfo\<close> alone, each of
  its steps returns the simulator's scalar reward, and its \<^verbatim>\<open>reward_space\<close> is whatever
  the simulator itself exposes, so none (and none of dimension 3) when the simulator has
  none.
\<close>

theorem load_unconstrained:
  assumes "gym_make name = Inr base"
  shows "load gym_make num_steps wrap_env name env_id discount L True gw aw =
           wrap_env
             \<lparr>arg_env = Plain (CompleteEnvInfo_init base name),
              arg_env_id = env_id, arg_discount = discount,
              arg_max_episode_steps =
                min (num_steps base - 1)
                  (case L of
                     None \<Rightarrow> num_steps base - 1
                   | Some l \<Rightarrow> if l = 0 then num_steps base - 1 else l),
              arg_gym_env_wrappers = gw, arg_alf_env_wrappers = aw\<rparr> \<and>
         (\<forall>s a obs r d info s'.
            base_step s a = Inr ((obs, r, d, info), s') \<longrightarrow>
            (\<exists>out. gym_env_step base_step (Plain (CompleteEnvInfo_init s name)) a =
                     Inr ((obs, Scalar r, d, out), Plain (CompleteEnvInfo_init s' name)))) \<and>
         env_reward_space base_reward_space (Plain (CompleteEnvInfo_init base name)) =
           base_reward_space base \<and>
         (base_reward_space base = None \<longrightarrow>
            env_reward_space base_reward_space (Plain (CompleteEnvInfo_init base name)) = None)"
proof -
  have rs: "env_reward_space base_reward_space (Plain (CompleteEnvInfo_init base name)) =
      base_reward_space base"
    by (simp add: env_reward_space_def init_fields)
  have st: "\<forall>s a obs r d info s'.
      base_step s a = Inr ((obs, r, d, info), s') \<longrightarrow>
      (\<exists>out. gym_env_step base_step (Plain (CompleteEnvInfo_init s name)) a =
               Inr ((obs, Scalar r, d, out), Plain (CompleteEnvInfo_init s' name)))"
    by (simp add: gym_env_step_Plain)
  have ld: "load gym_make num_steps wrap_env name env_id discount L True gw aw =
      wrap_env
        \<lparr>arg_env = Plain (CompleteEnvInfo_init base name),
         arg_env_id = env_id, arg_discount = discount,
         arg_max_episode_steps =
           min (num_steps base - 1)
             (case L of
                None \<Rightarrow> num_steps base - 1
              | Some l \<Rightarrow> if l = 0 then num_steps base - 1 else l),
         arg_gym_env_wrappers = gw, arg_alf_env_wrappers = aw\<rparr>"
    using load_Inr [where gym_make = gym_make and name = name and unconstrained = True, OF assms]
    by simp
  from rs have "base_reward_space base = None \<longrightarrow>
      env_reward_space base_reward_space (Plain (CompleteEnvInfo_init base name)) = None"
    by simp
  with ld st rs show ?thesis by (intro conjI)
qed

text \<open>An unconstrained load over a simulator without a reward space.\<close>

theorem load_unconstrained_witness:
  "((\<lambda>n. Inr ()) :: string \<Rightarrow> unit exn + unit) ''Safexp-PointGoal1-v0'' = Inr () \<and>
   load (\<lambda>n. Inr ()) (\<lambda>e. 1000) (Inr :: _ \<Rightarrow> unit exn + _) ''Safexp-PointGoal1-v0''
        () 1 None True () () =
     Inr \<lparr>arg_env = Plain (CompleteEnvInfo_init () ''Safexp-PointGoal1-v0''),
          arg_env_id = (), arg_discount = 1, arg_max_episode_steps = 999,
          arg_gym_env_wrappers = (), arg_alf_env_wrappers = ()\<rparr> \<and>
   env_reward_space (\<lambda>e. None) (Plain (CompleteEnvInfo_init () ''Safexp-PointGoal1-v0'')) = None"
proof -
  let ?make = "(\<lambda>n. Inr ()) :: string \<Rightarrow> unit exn + unit"
  let ?name = "''Safexp-PointGoal1-v0''"
  let ?brs = "(\<lambda>e. None) :: unit \<Rightarrow> box option"
  have made: "?make ?name = Inr ()"
    by simp
  note inst = load_unconstrained [where gym_make = ?make and name = ?name and num_steps = "\<lambda>e. 1000"
      and wrap_env = "Inr :: (unit, unit, unit, unit) wrap_env_args \<Rightarrow>
        unit exn + (unit, unit, unit, unit) wrap_env_args"
      and env_id = "()" and discount = 1 and L = None
      and gw = "()" and aw = "()" and base_reward_space = ?brs
      and base_step = "stub_step ((), 0, False, Map.empty) :: (unit, unit, unit, real, unit) step_fn",
      OF made]
  from inst have ld: "load ?make (\<lambda>e. 1000) (Inr :: (unit, unit, unit, unit) wrap_env_args \<Rightarrow>
        unit exn + (unit, unit, unit, unit) wrap_env_args) ?name () 1 None True () () =
      Inr \<lparr>arg_env = Plain (CompleteEnvInfo_init () ?name),
           arg_env_id = (), arg_discount = 1, arg_max_episode_steps = 999,
           arg_gym_env_wrappers = (), arg_alf_env_wrappers = ()\<rparr>"
    by simp
  from inst have rs: "env_reward_space ?brs (Plain (CompleteEnvInfo_init () ?name)) = None"
    by simp
  from made ld rs show ?thesis by (intro conjI)
qed

text \<open>By contrast, the vectorized environment exposes the unbounded box of shape \<open>[3]\<close>.\<close>

lemma env_reward_space_Vectorized:
  "env_reward_space base_reward_space (Vectorized (VectorReward_init env)) =
     Some \<lparr>low = MinusInf, high = PlusInf, shape = [3]\<rparr>"
  by (simp add: env_reward_space_def reward_space_def VectorReward_init_def
      REWARD_DIMENSION_def)

end
